theory Spec2Isabelle
  imports Complex_Main "HOL-Library.Multiset" "HOL-Library.Product_Lexorder"
begin

section \<open>Data model (models.py)\<close>

text \<open>
  The four tables of \<^verbatim>\<open>models.py\<close>, on the PostgreSQL engine of \<^verbatim>\<open>database.py\<close>. A row is
  a record, a table is the list of its rows in storage order, and
  \<^verbatim>\<open>query.filter(...).first()\<close> is \<open>find\<close> on that list. A string is the list of its
  characters; it stands for a text that the database driver can send (a Python string
  with a NUL character is not represented).
  Timestamps are integers (microseconds on the server clock); the API's responses keep
  the timestamp itself where the source renders it with \<^verbatim>\<open>isoformat()\<close>.
  Values that the source draws from \<^verbatim>\<open>uuid.uuid4()\<close> and from the clock
  (\<^verbatim>\<open>datetime.now()\<close>, the columns' \<^verbatim>\<open>server_default=func.now()\<close>) are arguments of
  the operations.
  The model keeps the primary keys, the unique columns, the foreign keys and the widths
  of the string columns of \<^verbatim>\<open>models.py\<close>.
\<close>

type_synonym datetime = int

record organization =
  o_id :: string
  o_name :: string
  o_email :: string
  o_subscription_status :: string
  o_plan_type :: string
  o_created_at :: datetime

record user =
  u_id :: string
  u_org_id :: string
  u_email :: string
  u_full_name :: string
  u_password :: string
  u_is_active :: bool
  u_created_at :: datetime

record document =
  d_id :: string
  d_org_id :: string
  d_filename :: string
  d_gcs_object_key :: string
  d_status :: string
  d_expiry_date :: "datetime option"
  d_manual_override :: bool
  d_manual_override_date :: "datetime option"
  d_confidence_score :: "real option"
  d_needs_review_reason :: "string option"
  d_created_at :: datetime
  d_processed_at :: "datetime option"

record api_key_row =
  k_id :: nat
  k_api_key :: string
  k_user_id :: string
  k_created_at :: datetime
  k_is_active :: bool

text \<open>
  The database: the four tables and the counter behind the autoincrement column
  \<^verbatim>\<open>api_keys.id\<close>.
\<close>

record db =
  organizations :: "organization list"
  users :: "user list"
  documents :: "document list"
  api_keys :: "api_key_row list"
  api_key_seq :: nat

section \<open>Errors\<close>

text \<open>
  A handler ends with its return value, with an \<^verbatim>\<open>HTTPException\<close> it raises itself, with
  the framework's rejection of a query parameter outside its declared \<^verbatim>\<open>Query\<close> bounds,
  or with a Python exception that nothing in the source catches.
\<close>

datatype py_exception = ValueError | AttributeError | IntegrityError | DataError

datatype error =
  HTTPException nat string
  | RequestValidationError
  | Uncaught py_exception

text \<open>The HTTP status the client sees: the framework answers 422 to a rejected
  parameter and 500 to an exception that no handler catches.\<close>

fun status_code :: "error \<Rightarrow> nat" where
  "status_code (HTTPException c _) = c"
| "status_code RequestValidationError = 422"
| "status_code (Uncaught _) = 500"

text \<open>Python's \<^verbatim>\<open>if x:\<close> on an \<^verbatim>\<open>Optional[str]\<close>: \<^verbatim>\<open>None\<close> and the empty string are
  false. \<open>supplied x\<close> is the string the branch sees, \<open>None\<close> when the branch is skipped.\<close>

fun supplied :: "string option \<Rightarrow> string option" where
  "supplied None = None"
| "supplied (Some v) = (if v = [] then None else Some v)"

section \<open>Storage operations\<close>

text \<open>
  A value written to a column \<^verbatim>\<open>String(n)\<close>: the engine stores a string of at most \<open>n\<close>
  characters as it is, cuts a longer string to \<open>n\<close> characters when all the characters
  beyond the \<open>n\<close>-th are spaces, and rejects any other longer string
  (\<^verbatim>\<open>DataError\<close>, at the commit).
\<close>

definition varchar :: "nat \<Rightarrow> string \<Rightarrow> py_exception + string" where
  "varchar n v =
     (if length v \<le> n then Inr v
      else if list_all (\<lambda>c. c = CHR '' '') (drop n v) then Inr (take n v)
      else Inl DataError)"

fun and_then :: "'e + 'a \<Rightarrow> ('a \<Rightarrow> 'e + 'b) \<Rightarrow> 'e + 'b" where
  "and_then (Inl e) f = Inl e"
| "and_then (Inr x) f = f x"

text \<open>The rows as the columns of \<^verbatim>\<open>models.py\<close> store them (\<^verbatim>\<open>String\<close> without a width and
  \<^verbatim>\<open>Text\<close> are unbounded).\<close>

definition stored_organization :: "organization \<Rightarrow> py_exception + organization" where
  "stored_organization org =
     and_then (varchar 255 (o_name org)) (\<lambda>name.
     and_then (varchar 255 (o_email org)) (\<lambda>email.
     and_then (varchar 50 (o_subscription_status org)) (\<lambda>subscription_status.
     and_then (varchar 50 (o_plan_type org)) (\<lambda>plan_type.
       Inr (org\<lparr>o_name := name, o_email := email,
                o_subscription_status := subscription_status, o_plan_type := plan_type\<rparr>)))))"

definition stored_user :: "user \<Rightarrow> py_exception + user" where
  "stored_user usr =
     and_then (varchar 255 (u_email usr)) (\<lambda>email.
     and_then (varchar 255 (u_full_name usr)) (\<lambda>full_name.
     and_then (varchar 255 (u_password usr)) (\<lambda>password.
       Inr (usr\<lparr>u_email := email, u_full_name := full_name, u_password := password\<rparr>))))"


text \<open>\<^verbatim>\<open>db.add(row); db.commit()\<close>: the row, as its columns store it, is appended unless
  a primary key, a unique column or a foreign key of \<^verbatim>\<open>models.py\<close> rejects it.\<close>

definition add_organization :: "db \<Rightarrow> organization \<Rightarrow> py_exception + db" where
  "add_organization s org =
     and_then (stored_organization org) (\<lambda>row.
       if list_ex (\<lambda>x. o_id x = o_id row) (organizations s) then Inl IntegrityError
       else if list_ex (\<lambda>x. o_email x = o_email row) (organizations s)
       then Inl IntegrityError
       else Inr (s\<lparr>organizations := organizations s @ [row]\<rparr>))"

definition add_user :: "db \<Rightarrow> user \<Rightarrow> py_exception + db" where
  "add_user s usr =
     and_then (stored_user usr) (\<lambda>row.
       if list_ex (\<lambda>x. u_id x = u_id row) (users s) then Inl IntegrityError
       else if list_ex (\<lambda>x. u_email x = u_email row) (users s) then Inl IntegrityError
       else if \<not> list_ex (\<lambda>x. o_id x = u_org_id row) (organizations s)
       then Inl IntegrityError
       else Inr (s\<lparr>users := users s @ [row]\<rparr>))"

text \<open>The key's \<^verbatim>\<open>id\<close> is handed out by the engine's sequence.\<close>

definition add_api_key :: "db \<Rightarrow> string \<Rightarrow> string \<Rightarrow> datetime \<Rightarrow> py_exception + db" where
  "add_api_key s key uid now =
     and_then (varchar 255 key) (\<lambda>api_key.
       if list_ex (\<lambda>x. k_api_key x = api_key) (api_keys s) then Inl IntegrityError
       else if \<not> list_ex (\<lambda>x. u_id x = uid) (users s) then Inl IntegrityError
       else Inr (s\<lparr>api_keys := api_keys s @
                     [\<lparr>k_id = Suc (api_key_seq s), k_api_key = api_key, k_user_id = uid,
                       k_created_at = now, k_is_active = True\<rparr>],
                   api_key_seq := Suc (api_key_seq s)\<rparr>))"


text \<open>Writing back the row that \<^verbatim>\<open>first()\<close> returned: the first row that satisfies the
  predicate is replaced, every other row stays where it is.\<close>

fun update_first :: "('a \<Rightarrow> bool) \<Rightarrow> ('a \<Rightarrow> 'a) \<Rightarrow> 'a list \<Rightarrow> 'a list" where
  "update_first P f [] = []"
| "update_first P f (x # xs) = (if P x then f x # xs else x # update_first P f xs)"


section \<open>Request and response models (main.py)\<close>

text \<open>The fields carry a prefix, since a record field is a constant of the theory:
  \<open>su_\<close> for \<^verbatim>\<open>OrganizationSignup\<close>, \<open>lg_\<close> for \<^verbatim>\<open>LoginRequest\<close>, \<open>cr_\<close> for
  \<^verbatim>\<open>DocumentCreate\<close>, \<open>up_\<close> for \<^verbatim>\<open>DocumentUpdate\<close>. The framework has validated the
  body before the handler runs.\<close>

record OrganizationSignup =
  su_org_name :: string
  su_org_email :: string
  su_user_email :: string
  su_password :: string
  su_full_name :: string



record DocumentUpdate =
  up_expiry_date :: "string option"
  up_status :: "string option"

text \<open>The dictionary that signup and login return.\<close>

record auth_response =
  a_message :: string
  a_api_key :: string
  a_user_id :: string
  a_org_id :: string

section \<open>Helper functions\<close>

definition verify_api_key :: "db \<Rightarrow> string option \<Rightarrow> error + string" where
  "verify_api_key s x_api_key =
     (case supplied x_api_key of
        None \<Rightarrow> Inl (HTTPException 401 ''API key missing'')
      | Some key \<Rightarrow>
         (case find (\<lambda>r. k_api_key r = key \<and> k_is_active r) (api_keys s) of
            None \<Rightarrow> Inl (HTTPException 401 ''Invalid API key'')
          | Some api_key_record \<Rightarrow> Inr (k_user_id api_key_record)))"

section \<open>Authentication endpoints\<close>

text \<open>
  \<^verbatim>\<open>signup\<close> commits three times. An exception at a later commit leaves the rows of the
  earlier commits in the database, so the operation returns the database it leaves
  behind also when it fails. The three identifiers are the results of the three calls of
  \<^verbatim>\<open>uuid.uuid4()\<close> (the third in its \<^verbatim>\<open>hex\<close> form), the three times are the clock at the
  three commits.
\<close>

definition signup ::
  "db \<Rightarrow> OrganizationSignup \<Rightarrow> string \<Rightarrow> string \<Rightarrow> string \<Rightarrow> datetime \<Rightarrow> datetime \<Rightarrow> datetime
     \<Rightarrow> (error + auth_response) \<times> db" where
  "signup s data uuid_org uuid_user uuid_key now_org now_user now_key =
     (if find (\<lambda>x. u_email x = su_user_email data) (users s) \<noteq> None
      then (Inl (HTTPException 400 ''Email already registered''), s)
      else
        let org = \<lparr>o_id = uuid_org, o_name = su_org_name data, o_email = su_org_email data,
                   o_subscription_status = ''active'', o_plan_type = ''starter'',
                   o_created_at = now_org\<rparr>;
            usr = \<lparr>u_id = uuid_user, u_org_id = o_id org, u_email = su_user_email data,
                   u_full_name = su_full_name data, u_password = su_password data,
                   u_is_active = True, u_created_at = now_user\<rparr>;
            api_key = ''hlai_'' @ uuid_key
        in (case add_organization s org of
              Inl e \<Rightarrow> (Inl (Uncaught e), s)
            | Inr s1 \<Rightarrow>
               (case add_user s1 usr of
                  Inl e \<Rightarrow> (Inl (Uncaught e), s1)
                | Inr s2 \<Rightarrow>
                   (case add_api_key s2 api_key (u_id usr) now_key of
                      Inl e \<Rightarrow> (Inl (Uncaught e), s2)
                    | Inr s3 \<Rightarrow>
                       (Inr \<lparr>a_message = ''Signup successful'', a_api_key = api_key,
                             a_user_id = u_id usr, a_org_id = o_id org\<rparr>, s3)))))"




section \<open>Upload endpoints\<close>




section \<open>Document endpoints\<close>




record list_item =
  li_id :: string
  li_org_id :: string
  li_filename :: string
  li_status :: string
  li_expiry_date :: "datetime option"
  li_manual_override :: bool
  li_confidence_score :: "real option"
  li_created_at :: datetime

record list_response =
  lr_documents :: "list_item list"
  lr_total :: int
  lr_page :: int
  lr_page_size :: int
  lr_total_pages :: int

definition to_list_item :: "document \<Rightarrow> list_item" where
  "to_list_item doc =
     \<lparr>li_id = d_id doc, li_org_id = d_org_id doc, li_filename = d_filename doc,
      li_status = d_status doc, li_expiry_date = d_expiry_date doc,
      li_manual_override = d_manual_override doc,
      li_confidence_score = d_confidence_score doc, li_created_at = d_created_at doc\<rparr>"

text \<open>
  \<^verbatim>\<open>order_by(Document.created_at.desc())\<close>. The query names no second sort key, so the
  order among rows with equal \<^verbatim>\<open>created_at\<close> is the engine's choice, made anew for each
  query. \<open>tie\<close> is that choice: among rows with equal \<^verbatim>\<open>created_at\<close> the row with the
  smaller \<open>tie\<close> comes first (and rows that also agree on \<open>tie\<close> keep their storage
  order). Every descending order of rows that differ from one another is the result for
  some \<open>tie\<close>.
\<close>

definition order_by_created_at_desc :: "(document \<Rightarrow> nat) \<Rightarrow> document list \<Rightarrow> document list" where
  "order_by_created_at_desc tie docs = sort_key (\<lambda>d. (- d_created_at d, tie d)) docs"

text \<open>The query of \<^verbatim>\<open>list_documents\<close> before ordering and paging. \<open>ilike\<close> is the storage
  engine's case-insensitive pattern match, \<open>ilike value pattern\<close>.\<close>

definition list_query ::
  "(string \<Rightarrow> string \<Rightarrow> bool) \<Rightarrow> db \<Rightarrow> string \<Rightarrow> string option \<Rightarrow> string option \<Rightarrow> document list" where
  "list_query ilike s org status search =
     (let query = filter (\<lambda>d. d_org_id d = org) (documents s);
          query = (case supplied status of
                     None \<Rightarrow> query
                   | Some st \<Rightarrow> filter (\<lambda>d. d_status d = st) query);
          query = (case supplied search of
                     None \<Rightarrow> query
                   | Some term \<Rightarrow> filter (\<lambda>d. ilike (d_filename d) (''%'' @ term @ ''%'')) query)
      in query)"

text \<open>
  \<^verbatim>\<open>page: int = Query(1, ge=1)\<close> and \<^verbatim>\<open>page_size: int = Query(50, ge=1, le=100)\<close>: the
  framework rejects a value outside the bounds after the dependency has run. \<^verbatim>\<open>page\<close> has
  no upper bound; the engine reads \<^verbatim>\<open>OFFSET\<close> as a 64-bit integer and rejects a larger one
  (\<^verbatim>\<open>DataError\<close>), after the count has been taken.
\<close>

definition list_documents ::
  "(string \<Rightarrow> string \<Rightarrow> bool) \<Rightarrow> (document \<Rightarrow> nat) \<Rightarrow> db \<Rightarrow> int \<Rightarrow> int \<Rightarrow> string option
     \<Rightarrow> string option \<Rightarrow> string option \<Rightarrow> error + list_response" where
  "list_documents ilike tie s page page_size status search x_api_key =
     (case verify_api_key s x_api_key of
        Inl e \<Rightarrow> Inl e
      | Inr user_id \<Rightarrow>
         if \<not> (1 \<le> page \<and> 1 \<le> page_size \<and> page_size \<le> 100) then Inl RequestValidationError
         else
           (case find (\<lambda>x. u_id x = user_id) (users s) of
              None \<Rightarrow> Inl (HTTPException 404 ''User not found'')
            | Some usr \<Rightarrow>
               (let query = list_query ilike s (u_org_id usr) status search;
                    total = int (length query);
                    offset = (page - 1) * page_size
                in if 2 ^ 63 \<le> offset then Inl (Uncaught DataError)
                   else
                     (let docs = take (nat page_size)
                                   (drop (nat offset) (order_by_created_at_desc tie query))
                      in Inr \<lparr>lr_documents = map to_list_item docs, lr_total = total,
                              lr_page = page, lr_page_size = page_size,
                              lr_total_pages = (total + page_size - 1) div page_size\<rparr>))))"



record document_updated =
  du_id :: string
  du_status :: string
  du_expiry_date :: "datetime option"
  du_manual_override :: bool

record update_response =
  ur_message :: string
  ur_document :: document_updated

text \<open>
  The two assignments of \<^verbatim>\<open>update_document\<close>. \<open>fromisoformat\<close> is Python's
  \<^verbatim>\<open>datetime.fromisoformat\<close>, \<open>None\<close> where it raises \<^verbatim>\<open>ValueError\<close>; the handler does not
  catch the exception. \<open>now\<close> is \<^verbatim>\<open>datetime.now()\<close>. The new status goes to the column
  \<^verbatim>\<open>String(50)\<close> at \<^verbatim>\<open>db.commit()\<close>, which can reject it; \<^verbatim>\<open>db.refresh(document)\<close> then
  reads the stored row back, so \<open>apply_status\<close> gives the document as it is stored.
\<close>

definition apply_expiry ::
  "(string \<Rightarrow> datetime option) \<Rightarrow> datetime \<Rightarrow> string option \<Rightarrow> document \<Rightarrow> py_exception + document" where
  "apply_expiry fromisoformat now expiry doc =
     (case supplied expiry of
        None \<Rightarrow> Inr doc
      | Some e \<Rightarrow>
         (case fromisoformat e of
            None \<Rightarrow> Inl ValueError
          | Some t \<Rightarrow> Inr (doc\<lparr>d_expiry_date := Some t, d_manual_override := True,
                               d_manual_override_date := Some now\<rparr>)))"

definition apply_status :: "string option \<Rightarrow> document \<Rightarrow> py_exception + document" where
  "apply_status st doc =
     (case supplied st of
        None \<Rightarrow> Inr doc
      | Some v \<Rightarrow> and_then (varchar 50 v) (\<lambda>stored. Inr (doc\<lparr>d_status := stored\<rparr>)))"

definition update_document ::
  "(string \<Rightarrow> datetime option) \<Rightarrow> db \<Rightarrow> string \<Rightarrow> DocumentUpdate \<Rightarrow> string option \<Rightarrow> datetime
     \<Rightarrow> (error + update_response) \<times> db" where
  "update_document fromisoformat s document_id data x_api_key now =
     (case verify_api_key s x_api_key of
        Inl e \<Rightarrow> (Inl e, s)
      | Inr user_id \<Rightarrow>
         (let usr = find (\<lambda>x. u_id x = user_id) (users s);
              document = find (\<lambda>x. d_id x = document_id) (documents s)
          in (case document of
                None \<Rightarrow> (Inl (HTTPException 404 ''Document not found''), s)
              | Some doc \<Rightarrow>
                 (case usr of
                    None \<Rightarrow> (Inl (Uncaught AttributeError), s)
                  | Some u \<Rightarrow>
                     if d_org_id doc \<noteq> u_org_id u
                     then (Inl (HTTPException 403 ''Access denied''), s)
                     else
                       (case apply_expiry fromisoformat now (up_expiry_date data) doc of
                          Inl e \<Rightarrow> (Inl (Uncaught e), s)
                        | Inr doc1 \<Rightarrow>
                           (case apply_status (up_status data) doc1 of
                              Inl e \<Rightarrow> (Inl (Uncaught e), s)
                            | Inr doc2 \<Rightarrow>
                               (Inr \<lparr>ur_message = ''Document updated successfully'',
                                     ur_document =
                                       \<lparr>du_id = d_id doc2, du_status = d_status doc2,
                                        du_expiry_date = d_expiry_date doc2,
                                        du_manual_override = d_manual_override doc2\<rparr>\<rparr>,
                                s\<lparr>documents :=
                                    update_first (\<lambda>x. d_id x = document_id) (\<lambda>_. doc2)
                                      (documents s)\<rparr>)))))))"


section \<open>Reports endpoints\<close>

record export_response =
  e_message :: string
  e_download_url :: string
  e_total_records :: nat
  e_generated_at :: datetime

text \<open>\<open>uuid\<close> is the \<^verbatim>\<open>uuid.uuid4()\<close> of the download link, \<open>now\<close> the clock.\<close>

definition export_documents_csv ::
  "db \<Rightarrow> string option \<Rightarrow> string option \<Rightarrow> string option \<Rightarrow> string option \<Rightarrow> string \<Rightarrow> datetime
     \<Rightarrow> error + export_response" where
  "export_documents_csv s start_date end_date status_filter x_api_key uuid now =
     (case verify_api_key s x_api_key of
        Inl e \<Rightarrow> Inl e
      | Inr user_id \<Rightarrow>
         (case find (\<lambda>x. u_id x = user_id) (users s) of
            None \<Rightarrow> Inl (Uncaught AttributeError)
          | Some usr \<Rightarrow>
             (let query = filter (\<lambda>d. d_org_id d = u_org_id usr) (documents s);
                  query = (case supplied status_filter of
                             None \<Rightarrow> query
                           | Some st \<Rightarrow> filter (\<lambda>d. d_status d = st) query);
                  total_records = length query
              in Inr \<lparr>e_message = ''CSV export ready'',
                      e_download_url =
                        ''https://api.hellolisa.ai/downloads/export_'' @ uuid @ ''.csv'',
                      e_total_records = total_records, e_generated_at = now\<rparr>)))"

record status_breakdown =
  active :: nat
  processing :: nat
  expired :: nat
  expiring_soon :: nat
  needs_review :: nat

record summary_response =
  sm_total_documents :: nat
  sm_status_breakdown :: status_breakdown
  sm_generated_at :: datetime

definition get_documents_summary :: "db \<Rightarrow> string option \<Rightarrow> datetime \<Rightarrow> error + summary_response" where
  "get_documents_summary s x_api_key now =
     (case verify_api_key s x_api_key of
        Inl e \<Rightarrow> Inl e
      | Inr user_id \<Rightarrow>
         (case find (\<lambda>x. u_id x = user_id) (users s) of
            None \<Rightarrow> Inl (Uncaught AttributeError)
          | Some usr \<Rightarrow>
             (let docs = filter (\<lambda>d. d_org_id d = u_org_id usr) (documents s)
              in Inr \<lparr>sm_total_documents = length docs,
                      sm_status_breakdown =
                        \<lparr>active = length (filter (\<lambda>d. d_status d = ''active'') docs),
                         processing = length (filter (\<lambda>d. d_status d = ''processing'') docs),
                         expired = length (filter (\<lambda>d. d_status d = ''expired'') docs),
                         expiring_soon =
                           length (filter (\<lambda>d. d_status d = ''expiring_soon'') docs),
                         needs_review =
                           length (filter (\<lambda>d. d_status d = ''needs_review'') docs)\<rparr>,
                      sm_generated_at = now\<rparr>)))"

section \<open>Checkout endpoint\<close>



section \<open>The users' \<^verbatim>\<open>is_active\<close> flags\<close>

text \<open>The database with the \<^verbatim>\<open>is_active\<close> flag of every user row set by \<open>f\<close>; a handler
  whose result is the same on \<open>with_is_active f s\<close> for every \<open>f\<close> does not read the flags.\<close>

definition with_is_active :: "(user \<Rightarrow> bool) \<Rightarrow> db \<Rightarrow> db" where
  "with_is_active f s = s\<lparr>users := map (\<lambda>u. u\<lparr>u_is_active := f u\<rparr>) (users s)\<rparr>"

section \<open>Sample data for the closed examples\<close>

text \<open>Two organizations; Alice belongs to Acme, Bob (whose \<^verbatim>\<open>is_active\<close> flag is false) to
  Globex. Acme owns five documents, Globex two, one of them with a status outside the
  five buckets of the summary.\<close>

definition sample_doc :: "string \<Rightarrow> string \<Rightarrow> string \<Rightarrow> string \<Rightarrow> datetime \<Rightarrow> document" where
  "sample_doc i org name st created =
     \<lparr>d_id = i, d_org_id = org, d_filename = name, d_gcs_object_key = ''documents/'' @ name,
      d_status = st, d_expiry_date = None, d_manual_override = False,
      d_manual_override_date = None, d_confidence_score = None,
      d_needs_review_reason = None, d_created_at = created, d_processed_at = None\<rparr>"

definition sample_alice :: user where
  "sample_alice =
     \<lparr>u_id = ''user-alice'', u_org_id = ''org-acme'', u_email = ''u@acme.test'',
      u_full_name = ''Alice'', u_password = ''pw'', u_is_active = True, u_created_at = 1\<rparr>"

definition sample_bob :: user where
  "sample_bob =
     \<lparr>u_id = ''user-bob'', u_org_id = ''org-globex'', u_email = ''bob@globex.test'',
      u_full_name = ''Bob'', u_password = ''secret'', u_is_active = False, u_created_at = 2\<rparr>"

definition sample_db :: db where
  "sample_db =
     \<lparr>organizations =
        [\<lparr>o_id = ''org-acme'', o_name = ''Acme'', o_email = ''a@acme.test'',
          o_subscription_status = ''active'', o_plan_type = ''starter'', o_created_at = 1\<rparr>,
         \<lparr>o_id = ''org-globex'', o_name = ''Globex'', o_email = ''g@globex.test'',
          o_subscription_status = ''active'', o_plan_type = ''starter'', o_created_at = 2\<rparr>],
      users = [sample_alice, sample_bob],
      documents =
        [sample_doc ''d1'' ''org-acme'' ''lease.pdf'' ''active'' 10,
         sample_doc ''d2'' ''org-acme'' ''Lease-2.pdf'' ''active'' 30,
         sample_doc ''g1'' ''org-globex'' ''lease-globex.pdf'' ''archived'' 25,
         sample_doc ''d3'' ''org-acme'' ''permit.pdf'' ''processing'' 20,
         sample_doc ''d4'' ''org-acme'' ''licence.pdf'' ''expired'' 30,
         sample_doc ''g2'' ''org-globex'' ''contract.pdf'' ''active'' 40,
         sample_doc ''d5'' ''org-acme'' ''policy.pdf'' ''needs_review'' 50],
      api_keys =
        [\<lparr>k_id = 1, k_api_key = ''hlai_alice'', k_user_id = ''user-alice'', k_created_at = 1,
          k_is_active = True\<rparr>,
         \<lparr>k_id = 2, k_api_key = ''hlai_bob'', k_user_id = ''user-bob'', k_created_at = 2,
          k_is_active = True\<rparr>,
         \<lparr>k_id = 3, k_api_key = ''hlai_old'', k_user_id = ''user-alice'', k_created_at = 3,
          k_is_active = False\<rparr>],
      api_key_seq = 3\<rparr>"

text \<open>A parser for the examples: it agrees with \<^verbatim>\<open>datetime.fromisoformat\<close> on the strings
  the examples pass (one timestamp, and strings that are no timestamp).\<close>

definition sample_fromisoformat :: "string \<Rightarrow> datetime option" where
  "sample_fromisoformat e =
     (if e = ''2025-01-01T00:00:00'' then Some 1735689600000000 else None)"

text \<open>A pattern match for the examples: \<^verbatim>\<open>%\<close> stands for any run of characters,
  \<^verbatim>\<open>_\<close> for one character, ASCII letters match in either case.\<close>

definition lower_ascii :: "char \<Rightarrow> char" where
  "lower_ascii c =
     (let n = of_char c :: nat in if 65 \<le> n \<and> n \<le> 90 then char_of (n + 32) else c)"

fun like_match :: "string \<Rightarrow> string \<Rightarrow> bool" where
  "like_match [] v = (v = [])"
| "like_match (p # ps) [] = (p = CHR ''%'' \<and> like_match ps [])"
| "like_match (p # ps) (c # cs) =
     (if p = CHR ''%'' then like_match ps (c # cs) \<or> like_match (p # ps) cs
      else if p = CHR ''_'' then like_match ps cs
      else lower_ascii p = lower_ascii c \<and> like_match ps cs)"

definition sample_ilike :: "string \<Rightarrow> string \<Rightarrow> bool" where
  "sample_ilike v pattern = like_match pattern v"

text \<open>Two choices of the engine among rows with equal \<^verbatim>\<open>created_at\<close>: the storage order, and
  the document \<^verbatim>\<open>d4\<close> before the others.\<close>

definition tie_storage :: "document \<Rightarrow> nat" where
  "tie_storage d = 0"



section \<open>Signup rejects a registered email\<close>

text \<open>
  C7. In a state that holds a user with email E, a signup whose \<^verbatim>\<open>user_email\<close> is E ends
  with the \<^verbatim>\<open>HTTPException\<close> of status 400, ``Email already registered'', and leaves the
  database as it was: no organization, user or API key is added, whatever the other
  fields of the request, the generated identifiers and the clock are.
\<close>

theorem signup_duplicate_email:
  assumes "u \<in> set (users s)" and "u_email u = su_user_email data"
  shows "signup s data uuid_org uuid_user uuid_key now_org now_user now_key =
           (Inl (HTTPException 400 ''Email already registered''), s)
         \<and> status_code (HTTPException 400 ''Email already registered'') = 400"
proof -
  from assms have "find (\<lambda>x. u_email x = su_user_email data) (users s) \<noteq> None"
    by (auto simp: find_None_iff)
  then show ?thesis
    by (simp add: signup_def)
qed

theorem signup_duplicate_email_witness:
  "signup sample_db
     \<lparr>su_org_name = ''Initech'', su_org_email = ''i@initech.test'',
      su_user_email = ''u@acme.test'', su_password = ''x'', su_full_name = ''Mallory''\<rparr>
     ''org-9'' ''user-9'' ''k9'' 7 8 9
   = (Inl (HTTPException 400 ''Email already registered''), sample_db)"
proof -
  have mem: "sample_alice \<in> set (users sample_db)"
    by (simp add: sample_db_def)
  have eq: "u_email sample_alice =
            su_user_email \<lparr>su_org_name = ''Initech'', su_org_email = ''i@initech.test'',
              su_user_email = ''u@acme.test'', su_password = ''x'',
              su_full_name = ''Mallory''\<rparr>"
    by (simp add: sample_alice_def)
  from signup_duplicate_email [OF mem eq] show ?thesis
    by simp
qed

section \<open>Access control of the document handlers\<close>




section \<open>The document list is confined to the caller's organization\<close>

lemma set_list_query:
  "set (list_query ilike s org st search) \<subseteq> {d \<in> set (documents s). d_org_id d = org}"
  by (auto simp: list_query_def Let_def split: option.splits)

lemma set_order_by_created_at_desc [simp]:
  "set (order_by_created_at_desc tie docs) = set docs"
  by (simp add: order_by_created_at_desc_def)

lemma set_page_subset:
  "set (take n (drop k xs)) \<subseteq> set xs"
  by (meson set_drop_subset set_take_subset subset_trans)

lemma li_org_id_to_list_item [simp]: "li_org_id (to_list_item d) = d_org_id d"
  by (simp add: to_list_item_def)

text \<open>
  C2. Whatever the state, the page, the page size, the filters and the engine's order
  among equal \<^verbatim>\<open>created_at\<close>: every item that
  \<^verbatim>\<open>list_documents\<close> returns to a user is the rendering of a document of the database
  whose \<^verbatim>\<open>org_id\<close> is the user's, so its \<^verbatim>\<open>org_id\<close> field is the user's; the rendering of a
  document of any other organization is never among the items.
\<close>

theorem list_documents_org_scoped:
  assumes auth: "verify_api_key s x_api_key = Inr user_id"
    and usr: "find (\<lambda>x. u_id x = user_id) (users s) = Some u"
    and run: "list_documents ilike tie s page page_size st search x_api_key = Inr r"
  shows "(\<forall>item\<in>set (lr_documents r).
            li_org_id item = u_org_id u
            \<and> (\<exists>d\<in>set (documents s). d_org_id d = u_org_id u \<and> item = to_list_item d))
       \<and> (\<forall>d. d_org_id d \<noteq> u_org_id u \<longrightarrow> to_list_item d \<notin> set (lr_documents r))"
proof -
  define q where "q = list_query ilike s (u_org_id u) st search"
  from run auth usr have items:
    "lr_documents r =
       map to_list_item
         (take (nat page_size) (drop (nat ((page - 1) * page_size)) (order_by_created_at_desc tie q)))"
    by (auto simp: list_documents_def Let_def q_def split: if_splits)
  have sub: "set (take (nat page_size)
                (drop (nat ((page - 1) * page_size)) (order_by_created_at_desc tie q)))
             \<subseteq> {d \<in> set (documents s). d_org_id d = u_org_id u}"
    using set_page_subset [of "nat page_size" "nat ((page - 1) * page_size)"
        "order_by_created_at_desc tie q"] set_list_query [of ilike s "u_org_id u" st search]
    by (auto simp: q_def)
  have first: "\<forall>item\<in>set (lr_documents r).
            li_org_id item = u_org_id u
            \<and> (\<exists>d\<in>set (documents s). d_org_id d = u_org_id u \<and> item = to_list_item d)"
    using sub by (auto simp: items)
  have second: "\<forall>d. d_org_id d \<noteq> u_org_id u \<longrightarrow> to_list_item d \<notin> set (lr_documents r)"
  proof (intro allI impI notI)
    fix d assume other: "d_org_id d \<noteq> u_org_id u" and mem: "to_list_item d \<in> set (lr_documents r)"
    from first mem have "li_org_id (to_list_item d) = u_org_id u" by blast
    with other show False by simp
  qed
  from first second show ?thesis by blast
qed

theorem list_documents_org_scoped_witness:
  "\<exists>r. list_documents sample_ilike tie_storage sample_db 1 2 None (Some ''LEASE'')
         (Some ''hlai_alice'') = Inr r
       \<and> list_all (\<lambda>item. li_org_id item = ''org-acme'') (lr_documents r)
       \<and> length (lr_documents r) = 2
       \<and> to_list_item (sample_doc ''g1'' ''org-globex'' ''lease-globex.pdf'' ''archived'' 25)
           \<notin> set (lr_documents r)"
proof -
  have auth: "verify_api_key sample_db (Some ''hlai_alice'') = Inr ''user-alice''"
    by (simp add: verify_api_key_def sample_db_def)
  have usr: "find (\<lambda>x. u_id x = ''user-alice'') (users sample_db) = Some sample_alice"
    by (simp add: sample_db_def sample_alice_def)
  have org: "u_org_id sample_alice = ''org-acme''"
    by (simp add: sample_alice_def)
  have run: "list_documents sample_ilike tie_storage sample_db 1 2 None (Some ''LEASE'')
      (Some ''hlai_alice'') =
      Inr \<lparr>lr_documents =
             [to_list_item (sample_doc ''d2'' ''org-acme'' ''Lease-2.pdf'' ''active'' 30),
              to_list_item (sample_doc ''d1'' ''org-acme'' ''lease.pdf'' ''active'' 10)],
           lr_total = 2, lr_page = 1, lr_page_size = 2, lr_total_pages = 1\<rparr>"
    by code_simp
  have other: "d_org_id (sample_doc ''g1'' ''org-globex'' ''lease-globex.pdf'' ''archived'' 25)
                 \<noteq> u_org_id sample_alice"
    by (simp add: sample_doc_def org)
  from list_documents_org_scoped [OF auth usr run] other
  show ?thesis
    by (simp add: run org list_all_iff)
qed

section \<open>The summary counts by status\<close>

lemma length_filter_conj:
  "length (filter Q (filter P xs)) = length (filter (\<lambda>x. P x \<and> Q x) xs)"
  by (induction xs) auto

lemma bucket_partition:
  "length (filter (\<lambda>d. d_status d = ''active'') xs)
   + length (filter (\<lambda>d. d_status d = ''processing'') xs)
   + length (filter (\<lambda>d. d_status d = ''expired'') xs)
   + length (filter (\<lambda>d. d_status d = ''expiring_soon'') xs)
   + length (filter (\<lambda>d. d_status d = ''needs_review'') xs)
   + length (filter (\<lambda>d. d_status d \<notin> {''active'', ''processing'', ''expired'',
                                         ''expiring_soon'', ''needs_review''}) xs)
   = length xs"
  by (induction xs) auto

text \<open>
  C6. For a request whose API key resolves to a user of the database, the summary
  succeeds; its total is the number of documents of the user's organization, and each of
  the five buckets counts the organization's documents whose status is exactly the
  bucket's name. The five buckets and the documents with any other status add up to the
  total, so the sum of the buckets is at most the total.
\<close>

theorem summary_counts:
  assumes auth: "verify_api_key s x_api_key = Inr user_id"
    and usr: "find (\<lambda>x. u_id x = user_id) (users s) = Some u"
  shows "\<exists>r. get_documents_summary s x_api_key now = Inr r
    \<and> sm_total_documents r = length (filter (\<lambda>d. d_org_id d = u_org_id u) (documents s))
    \<and> active (sm_status_breakdown r) =
        length (filter (\<lambda>d. d_org_id d = u_org_id u \<and> d_status d = ''active'') (documents s))
    \<and> processing (sm_status_breakdown r) =
        length (filter (\<lambda>d. d_org_id d = u_org_id u \<and> d_status d = ''processing'') (documents s))
    \<and> expired (sm_status_breakdown r) =
        length (filter (\<lambda>d. d_org_id d = u_org_id u \<and> d_status d = ''expired'') (documents s))
    \<and> expiring_soon (sm_status_breakdown r) =
        length (filter (\<lambda>d. d_org_id d = u_org_id u \<and> d_status d = ''expiring_soon'')
                  (documents s))
    \<and> needs_review (sm_status_breakdown r) =
        length (filter (\<lambda>d. d_org_id d = u_org_id u \<and> d_status d = ''needs_review'')
                  (documents s))
    \<and> active (sm_status_breakdown r) + processing (sm_status_breakdown r)
        + expired (sm_status_breakdown r) + expiring_soon (sm_status_breakdown r)
        + needs_review (sm_status_breakdown r)
        + length (filter (\<lambda>d. d_org_id d = u_org_id u
                              \<and> d_status d \<notin> {''active'', ''processing'', ''expired'',
                                               ''expiring_soon'', ''needs_review''})
                    (documents s))
        = sm_total_documents r
    \<and> active (sm_status_breakdown r) + processing (sm_status_breakdown r)
        + expired (sm_status_breakdown r) + expiring_soon (sm_status_breakdown r)
        + needs_review (sm_status_breakdown r)
        \<le> sm_total_documents r"
proof -
  define docs where "docs = filter (\<lambda>d. d_org_id d = u_org_id u) (documents s)"
  define r where "r =
    \<lparr>sm_total_documents = length docs,
     sm_status_breakdown =
       \<lparr>active = length (filter (\<lambda>d. d_status d = ''active'') docs),
        processing = length (filter (\<lambda>d. d_status d = ''processing'') docs),
        expired = length (filter (\<lambda>d. d_status d = ''expired'') docs),
        expiring_soon = length (filter (\<lambda>d. d_status d = ''expiring_soon'') docs),
        needs_review = length (filter (\<lambda>d. d_status d = ''needs_review'') docs)\<rparr>,
     sm_generated_at = now\<rparr>"
  have run: "get_documents_summary s x_api_key now = Inr r"
    by (simp add: get_documents_summary_def auth usr Let_def r_def docs_def)
  have part: "active (sm_status_breakdown r) + processing (sm_status_breakdown r)
        + expired (sm_status_breakdown r) + expiring_soon (sm_status_breakdown r)
        + needs_review (sm_status_breakdown r)
        + length (filter (\<lambda>d. d_status d \<notin> {''active'', ''processing'', ''expired'',
                                               ''expiring_soon'', ''needs_review''}) docs)
        = sm_total_documents r"
    using bucket_partition [of docs] by (simp add: r_def)
  have other: "length (filter (\<lambda>d. d_status d \<notin> {''active'', ''processing'', ''expired'',
                                               ''expiring_soon'', ''needs_review''}) docs)
      = length (filter (\<lambda>d. d_org_id d = u_org_id u
                              \<and> d_status d \<notin> {''active'', ''processing'', ''expired'',
                                               ''expiring_soon'', ''needs_review''})
                    (documents s))"
    unfolding docs_def by (rule length_filter_conj)
  have fields:
    "sm_total_documents r = length (filter (\<lambda>d. d_org_id d = u_org_id u) (documents s))"
    "active (sm_status_breakdown r) =
        length (filter (\<lambda>d. d_org_id d = u_org_id u \<and> d_status d = ''active'') (documents s))"
    "processing (sm_status_breakdown r) =
        length (filter (\<lambda>d. d_org_id d = u_org_id u \<and> d_status d = ''processing'') (documents s))"
    "expired (sm_status_breakdown r) =
        length (filter (\<lambda>d. d_org_id d = u_org_id u \<and> d_status d = ''expired'') (documents s))"
    "expiring_soon (sm_status_breakdown r) =
        length (filter (\<lambda>d. d_org_id d = u_org_id u \<and> d_status d = ''expiring_soon'')
                  (documents s))"
    "needs_review (sm_status_breakdown r) =
        length (filter (\<lambda>d. d_org_id d = u_org_id u \<and> d_status d = ''needs_review'')
                  (documents s))"
    by (simp_all add: r_def docs_def length_filter_conj)
  from part other have sum: "active (sm_status_breakdown r) + processing (sm_status_breakdown r)
        + expired (sm_status_breakdown r) + expiring_soon (sm_status_breakdown r)
        + needs_review (sm_status_breakdown r)
        + length (filter (\<lambda>d. d_org_id d = u_org_id u
                              \<and> d_status d \<notin> {''active'', ''processing'', ''expired'',
                                               ''expiring_soon'', ''needs_review''})
                    (documents s))
        = sm_total_documents r"
    by simp
  then have le: "active (sm_status_breakdown r) + processing (sm_status_breakdown r)
        + expired (sm_status_breakdown r) + expiring_soon (sm_status_breakdown r)
        + needs_review (sm_status_breakdown r)
        \<le> sm_total_documents r"
    by linarith
  show ?thesis
    apply (rule exI [of _ r])
    using run fields sum le by (intro conjI)
qed

theorem summary_counts_witness:
  "(\<exists>r. get_documents_summary sample_db (Some ''hlai_alice'') 99 = Inr r
        \<and> sm_total_documents r = 5
        \<and> active (sm_status_breakdown r) = 2
        \<and> processing (sm_status_breakdown r) = 1
        \<and> expired (sm_status_breakdown r) = 1
        \<and> expiring_soon (sm_status_breakdown r) = 0
        \<and> needs_review (sm_status_breakdown r) = 1)
   \<and> (\<exists>r. get_documents_summary sample_db (Some ''hlai_bob'') 99 = Inr r
        \<and> sm_total_documents r = 2
        \<and> active (sm_status_breakdown r) + processing (sm_status_breakdown r)
            + expired (sm_status_breakdown r) + expiring_soon (sm_status_breakdown r)
            + needs_review (sm_status_breakdown r) = 1)"
proof -
  have auth_a: "verify_api_key sample_db (Some ''hlai_alice'') = Inr ''user-alice''"
    by (simp add: verify_api_key_def sample_db_def)
  have usr_a: "find (\<lambda>x. u_id x = ''user-alice'') (users sample_db) = Some sample_alice"
    by (simp add: sample_db_def sample_alice_def)
  have org_a: "u_org_id sample_alice = ''org-acme''"
    by (simp add: sample_alice_def)
  have auth_b: "verify_api_key sample_db (Some ''hlai_bob'') = Inr ''user-bob''"
    by (simp add: verify_api_key_def sample_db_def)
  have usr_b: "find (\<lambda>x. u_id x = ''user-bob'') (users sample_db) = Some sample_bob"
    by (simp add: sample_db_def sample_alice_def sample_bob_def)
  have org_b: "u_org_id sample_bob = ''org-globex''"
    by (simp add: sample_bob_def)
  have docs: "documents sample_db =
        [sample_doc ''d1'' ''org-acme'' ''lease.pdf'' ''active'' 10,
         sample_doc ''d2'' ''org-acme'' ''Lease-2.pdf'' ''active'' 30,
         sample_doc ''g1'' ''org-globex'' ''lease-globex.pdf'' ''archived'' 25,
         sample_doc ''d3'' ''org-acme'' ''permit.pdf'' ''processing'' 20,
         sample_doc ''d4'' ''org-acme'' ''licence.pdf'' ''expired'' 30,
         sample_doc ''g2'' ''org-globex'' ''contract.pdf'' ''active'' 40,
         sample_doc ''d5'' ''org-acme'' ''policy.pdf'' ''needs_review'' 50]"
    by (simp add: sample_db_def)
  from summary_counts [OF auth_a usr_a, of 99]
  have a: "\<exists>r. get_documents_summary sample_db (Some ''hlai_alice'') 99 = Inr r
        \<and> sm_total_documents r = 5
        \<and> active (sm_status_breakdown r) = 2
        \<and> processing (sm_status_breakdown r) = 1
        \<and> expired (sm_status_breakdown r) = 1
        \<and> expiring_soon (sm_status_breakdown r) = 0
        \<and> needs_review (sm_status_breakdown r) = 1"
    by (auto simp: org_a docs sample_doc_def eval_nat_numeral)
  from summary_counts [OF auth_b usr_b, of 99]
  have b: "\<exists>r. get_documents_summary sample_db (Some ''hlai_bob'') 99 = Inr r
        \<and> sm_total_documents r = 2
        \<and> active (sm_status_breakdown r) + processing (sm_status_breakdown r)
            + expired (sm_status_breakdown r) + expiring_soon (sm_status_breakdown r)
            + needs_review (sm_status_breakdown r) = 1"
    by (auto simp: org_b docs sample_doc_def eval_nat_numeral)
  from a b show ?thesis by (rule conjI)
qed

section \<open>The CSV export ignores its date range\<close>

text \<open>
  C10. Two calls of \<^verbatim>\<open>export_documents_csv\<close> on the same state with the same API key and
  the same \<^verbatim>\<open>status_filter\<close> report the same \<^verbatim>\<open>total_records\<close> (or fail with the same
  error), whatever their \<^verbatim>\<open>start_date\<close> and \<^verbatim>\<open>end_date\<close> are (and whatever the generated
  link and the clock are). For a caller whose key resolves to a user row the count is
  the number of documents of the user's organization that pass the status filter, when
  one is given and not empty.
\<close>

theorem export_ignores_dates:
  "map_sum id e_total_records
     (export_documents_csv s start_date end_date status_filter x_api_key uuid now)
   = map_sum id e_total_records
       (export_documents_csv s start_date' end_date' status_filter x_api_key uuid' now')
   \<and> (\<forall>user_id u. verify_api_key s x_api_key = Inr user_id
          \<and> find (\<lambda>x. u_id x = user_id) (users s) = Some u \<longrightarrow>
        (\<exists>r. export_documents_csv s start_date end_date status_filter x_api_key uuid now = Inr r
           \<and> e_total_records r =
               length (filter (\<lambda>d. d_org_id d = u_org_id u
                                    \<and> (case supplied status_filter of
                                         None \<Rightarrow> True
                                       | Some st \<Rightarrow> d_status d = st))
                         (documents s))))"
proof (intro conjI allI impI)
  show "map_sum id e_total_records
     (export_documents_csv s start_date end_date status_filter x_api_key uuid now)
   = map_sum id e_total_records
       (export_documents_csv s start_date' end_date' status_filter x_api_key uuid' now')"
    by (simp add: export_documents_csv_def Let_def split: sum.splits option.splits)
next
  fix user_id u
  assume "verify_api_key s x_api_key = Inr user_id
          \<and> find (\<lambda>x. u_id x = user_id) (users s) = Some u"
  then show "\<exists>r. export_documents_csv s start_date end_date status_filter x_api_key uuid now
                 = Inr r
           \<and> e_total_records r =
               length (filter (\<lambda>d. d_org_id d = u_org_id u
                                    \<and> (case supplied status_filter of
                                         None \<Rightarrow> True
                                       | Some st \<Rightarrow> d_status d = st))
                         (documents s))"
    by (simp add: export_documents_csv_def Let_def length_filter_conj split: option.splits)
qed

theorem export_ignores_dates_witness:
  "map_sum id e_total_records
     (export_documents_csv sample_db (Some ''2024-01-01'') (Some ''2024-12-31'')
        (Some ''active'') (Some ''hlai_alice'') ''7f'' 98) = Inr 2
   \<and> map_sum id e_total_records
       (export_documents_csv sample_db None (Some ''never'')
          (Some ''active'') (Some ''hlai_alice'') ''3c'' 99) = Inr 2"
proof -
  have auth: "verify_api_key sample_db (Some ''hlai_alice'') = Inr ''user-alice''"
    by (simp add: verify_api_key_def sample_db_def)
  have usr: "find (\<lambda>x. u_id x = ''user-alice'') (users sample_db) = Some sample_alice"
    by (simp add: sample_db_def sample_alice_def)
  have org: "u_org_id sample_alice = ''org-acme''"
    by (simp add: sample_alice_def)
  have cnt: "length (filter (\<lambda>d. d_org_id d = ''org-acme'' \<and> d_status d = ''active'')
                       (documents sample_db)) = 2"
    by (simp add: sample_db_def sample_doc_def)
  note inst = export_ignores_dates [of sample_db "Some ''2024-01-01''" "Some ''2024-12-31''"
      "Some ''active''" "Some ''hlai_alice''" "''7f''" 98 None "Some ''never''" "''3c''" 99]
  from inst auth usr have "\<exists>r. export_documents_csv sample_db (Some ''2024-01-01'')
        (Some ''2024-12-31'') (Some ''active'') (Some ''hlai_alice'') ''7f'' 98 = Inr r
      \<and> e_total_records r = 2"
    by (simp add: org cnt)
  then have first: "map_sum id e_total_records
     (export_documents_csv sample_db (Some ''2024-01-01'') (Some ''2024-12-31'')
        (Some ''active'') (Some ''hlai_alice'') ''7f'' 98) = Inr 2"
    by auto
  with inst show ?thesis
    by simp
qed

section \<open>Updating a document\<close>

lemma find_update_first:
  "P y \<Longrightarrow> find P xs = Some x \<Longrightarrow> find P (update_first P (\<lambda>_. y) xs) = Some y"
  by (induction xs) (auto split: if_splits)

lemma update_first_idem:
  "P y \<Longrightarrow> update_first P (\<lambda>_. y) (update_first P (\<lambda>_. y) xs) = update_first P (\<lambda>_. y) xs"
  by (induction xs) auto

lemma length_update_first [simp]: "length (update_first P f xs) = length xs"
  by (induction xs) auto


lemma find_Some_P: "find P xs = Some x \<Longrightarrow> P x \<and> x \<in> set xs"
  by (induction xs) (auto split: if_splits)

lemma varchar_Inr:
  "varchar n v = Inr w \<longleftrightarrow>
     w = take n v \<and> (length v \<le> n \<or> list_all (\<lambda>c. c = CHR '' '') (drop n v))"
  by (auto simp: varchar_def)

lemma varchar_Inl:
  "varchar n v = Inl e \<longleftrightarrow>
     e = DataError \<and> n < length v \<and> \<not> list_all (\<lambda>c. c = CHR '' '') (drop n v)"
  by (auto simp: varchar_def)

lemma apply_status_Inr:
  "apply_status st doc = Inr doc' \<longleftrightarrow>
     (case supplied st of
        None \<Rightarrow> doc' = doc
      | Some v \<Rightarrow> doc' = doc\<lparr>d_status := take 50 v\<rparr>
                  \<and> (length v \<le> 50 \<or> list_all (\<lambda>c. c = CHR '' '') (drop 50 v)))"
  by (auto simp: apply_status_def varchar_def split: option.splits)


lemma apply_status_active:
  "apply_status (Some ''active'') doc = Inr (doc\<lparr>d_status := ''active''\<rparr>)"
  by (simp add: apply_status_Inr)

lemma apply_expiry_None [simp]: "apply_expiry f now None d = Inr d"
  by (simp add: apply_expiry_def)

lemma verify_api_key_documents [simp]:
  "verify_api_key (s\<lparr>documents := ds\<rparr>) k = verify_api_key s k"
  by (simp add: verify_api_key_def split: option.splits)

text \<open>
  C8. For a document that the caller's organization owns, the update with
  \<^verbatim>\<open>status = "active"\<close> and no \<^verbatim>\<open>expiry_date\<close> succeeds, and a second such update on the
  resulting database succeeds with the same response and leaves that database as it is:
  applying the update twice ends in the same state as applying it once, the document
  being the old one with status \<^verbatim>\<open>active\<close>.
\<close>

theorem update_status_idempotent:
  assumes auth: "verify_api_key s x_api_key = Inr user_id"
    and usr: "find (\<lambda>x. u_id x = user_id) (users s) = Some u"
    and doc: "find (\<lambda>x. d_id x = document_id) (documents s) = Some doc"
    and owned: "d_org_id doc = u_org_id u"
  shows "\<exists>r s1. update_document fromisoformat s document_id
                  \<lparr>up_expiry_date = None, up_status = Some ''active''\<rparr> x_api_key now = (Inr r, s1)
       \<and> update_document fromisoformat s1 document_id
            \<lparr>up_expiry_date = None, up_status = Some ''active''\<rparr> x_api_key now' = (Inr r, s1)
       \<and> find (\<lambda>x. d_id x = document_id) (documents s1) = Some (doc\<lparr>d_status := ''active''\<rparr>)"
proof -
  define doc2 where "doc2 = doc\<lparr>d_status := ''active''\<rparr>"
  define s1 where "s1 = s\<lparr>documents :=
      update_first (\<lambda>x. d_id x = document_id) (\<lambda>_. doc2) (documents s)\<rparr>"
  define r where "r = \<lparr>ur_message = ''Document updated successfully'',
      ur_document = \<lparr>du_id = d_id doc2, du_status = d_status doc2,
        du_expiry_date = d_expiry_date doc2, du_manual_override = d_manual_override doc2\<rparr>\<rparr>"
  from doc have id: "d_id doc = document_id"
    using find_Some_P [of "\<lambda>x. d_id x = document_id"] by blast
  then have id2: "d_id doc2 = document_id"
    by (simp add: doc2_def)
  have first: "update_document fromisoformat s document_id
      \<lparr>up_expiry_date = None, up_status = Some ''active''\<rparr> x_api_key now = (Inr r, s1)"
    by (simp add: update_document_def auth usr doc owned Let_def r_def s1_def doc2_def
        apply_status_active)
  have doc1: "find (\<lambda>x. d_id x = document_id) (documents s1) = Some doc2"
    using find_update_first [of "\<lambda>x. d_id x = document_id" doc2, OF id2 doc]
    by (simp add: s1_def)
  have auth1: "verify_api_key s1 x_api_key = Inr user_id"
    by (simp add: s1_def auth)
  have usr1: "find (\<lambda>x. u_id x = user_id) (users s1) = Some u"
    by (simp add: s1_def usr)
  have owned2: "d_org_id doc2 = u_org_id u"
    by (simp add: doc2_def owned)
  have again: "apply_status (Some ''active'') doc2 = Inr doc2"
    by (simp add: doc2_def apply_status_active)
  have same: "s1\<lparr>documents :=
      update_first (\<lambda>x. d_id x = document_id) (\<lambda>_. doc2) (documents s1)\<rparr> = s1"
    using update_first_idem [of "\<lambda>x. d_id x = document_id" doc2 "documents s", OF id2]
    by (simp add: s1_def)
  have second: "update_document fromisoformat s1 document_id
      \<lparr>up_expiry_date = None, up_status = Some ''active''\<rparr> x_api_key now' = (Inr r, s1)"
    by (simp add: update_document_def auth1 usr1 doc1 owned2 Let_def again same r_def)
  from first second doc1 show ?thesis
    unfolding doc2_def by blast
qed


theorem update_status_idempotent_witness:
  "\<exists>r s1. update_document sample_fromisoformat sample_db ''d3''
              \<lparr>up_expiry_date = None, up_status = Some ''active''\<rparr> (Some ''hlai_alice'') 98
            = (Inr r, s1)
       \<and> update_document sample_fromisoformat s1 ''d3''
              \<lparr>up_expiry_date = None, up_status = Some ''active''\<rparr> (Some ''hlai_alice'') 99
            = (Inr r, s1)
       \<and> find (\<lambda>x. d_id x = ''d3'') (documents s1) =
            Some (sample_doc ''d3'' ''org-acme'' ''permit.pdf'' ''active'' 20)"
proof -
  have auth: "verify_api_key sample_db (Some ''hlai_alice'') = Inr ''user-alice''"
    by (simp add: verify_api_key_def sample_db_def)
  have usr: "find (\<lambda>x. u_id x = ''user-alice'') (users sample_db) = Some sample_alice"
    by (simp add: sample_db_def sample_alice_def)
  have doc: "find (\<lambda>x. d_id x = ''d3'') (documents sample_db) =
               Some (sample_doc ''d3'' ''org-acme'' ''permit.pdf'' ''processing'' 20)"
    by (simp add: sample_db_def sample_doc_def)
  have owned: "d_org_id (sample_doc ''d3'' ''org-acme'' ''permit.pdf'' ''processing'' 20) =
                 u_org_id sample_alice"
    by (simp add: sample_doc_def sample_alice_def)
  have new: "(sample_doc ''d3'' ''org-acme'' ''permit.pdf'' ''processing'' 20)
               \<lparr>d_status := ''active''\<rparr> =
             sample_doc ''d3'' ''org-acme'' ''permit.pdf'' ''active'' 20"
    by (simp add: sample_doc_def)
  from update_status_idempotent [OF auth usr doc owned, of sample_fromisoformat 98 99]
  show ?thesis
    by (simp add: new)
qed







text \<open>
  C3, as the code has it. On a document that the caller's organization owns, an update
  whose \<^verbatim>\<open>expiry_date\<close> is a non-empty string that \<^verbatim>\<open>datetime.fromisoformat\<close> rejects ends
  with the parser's \<^verbatim>\<open>ValueError\<close>, which the handler does not catch: the client sees
  status 500, and the database is left as it was. An \<^verbatim>\<open>expiry_date\<close> that is the empty
  string is not parsed at all: the call does what it does without an \<^verbatim>\<open>expiry_date\<close>.
\<close>

theorem update_unparsable_expiry:
  assumes auth: "verify_api_key s x_api_key = Inr user_id"
    and usr: "find (\<lambda>x. u_id x = user_id) (users s) = Some u"
    and doc: "find (\<lambda>x. d_id x = document_id) (documents s) = Some doc"
    and owned: "d_org_id doc = u_org_id u"
    and given: "up_expiry_date data = Some e" and nonempty: "e \<noteq> []"
    and bad: "fromisoformat e = None"
  shows "update_document fromisoformat s document_id data x_api_key now =
           (Inl (Uncaught ValueError), s)
       \<and> status_code (Uncaught ValueError) = 500
       \<and> update_document fromisoformat s document_id (data\<lparr>up_expiry_date := Some ''''\<rparr>)
            x_api_key now =
          update_document fromisoformat s document_id (data\<lparr>up_expiry_date := None\<rparr>)
            x_api_key now"
proof -
  from given nonempty bad
  have "apply_expiry fromisoformat now (up_expiry_date data) doc = Inl ValueError"
    by (simp add: apply_expiry_def)
  then have "update_document fromisoformat s document_id data x_api_key now =
           (Inl (Uncaught ValueError), s)"
    by (simp add: update_document_def auth usr doc owned)
  moreover have "update_document fromisoformat s document_id
            (data\<lparr>up_expiry_date := Some ''''\<rparr>) x_api_key now =
          update_document fromisoformat s document_id (data\<lparr>up_expiry_date := None\<rparr>)
            x_api_key now"
    by (simp add: update_document_def apply_expiry_def Let_def
        split: sum.splits option.splits)
  ultimately show ?thesis
    by simp
qed

theorem update_unparsable_expiry_witness:
  "update_document sample_fromisoformat sample_db ''d1''
     \<lparr>up_expiry_date = Some ''next friday'', up_status = Some ''expired''\<rparr>
     (Some ''hlai_alice'') 99
   = (Inl (Uncaught ValueError), sample_db)"
proof -
  have auth: "verify_api_key sample_db (Some ''hlai_alice'') = Inr ''user-alice''"
    by (simp add: verify_api_key_def sample_db_def)
  have usr: "find (\<lambda>x. u_id x = ''user-alice'') (users sample_db) = Some sample_alice"
    by (simp add: sample_db_def sample_alice_def)
  have doc: "find (\<lambda>x. d_id x = ''d1'') (documents sample_db) =
               Some (sample_doc ''d1'' ''org-acme'' ''lease.pdf'' ''active'' 10)"
    by (simp add: sample_db_def sample_doc_def)
  have owned: "d_org_id (sample_doc ''d1'' ''org-acme'' ''lease.pdf'' ''active'' 10) =
                 u_org_id sample_alice"
    by (simp add: sample_doc_def sample_alice_def)
  have given: "up_expiry_date \<lparr>up_expiry_date = Some ''next friday'',
                 up_status = Some ''expired''\<rparr> = Some ''next friday''"
    by simp
  have nonempty: "''next friday'' \<noteq> []"
    by simp
  have bad: "sample_fromisoformat ''next friday'' = None"
    by (simp add: sample_fromisoformat_def)
  from update_unparsable_expiry [where fromisoformat = sample_fromisoformat and now = 99,
      OF auth usr doc owned given nonempty bad]
  show ?thesis
    by simp
qed

text \<open>An unparsable \<^verbatim>\<open>expiry_date\<close> does not give status 400: the string that is not a
  timestamp gives the uncaught \<^verbatim>\<open>ValueError\<close>, and the empty string gives no error at all.\<close>

theorem update_bad_expiry_counterexample:
  "fst (update_document sample_fromisoformat sample_db ''d1''
          \<lparr>up_expiry_date = Some ''not-a-date'', up_status = None\<rparr> (Some ''hlai_alice'') 99)
     = Inl (Uncaught ValueError)
   \<and> status_code (Uncaught ValueError) \<noteq> 400
   \<and> fst (update_document sample_fromisoformat sample_db ''d1''
          \<lparr>up_expiry_date = Some '''', up_status = None\<rparr> (Some ''hlai_alice'') 99)
     = Inr \<lparr>ur_message = ''Document updated successfully'',
            ur_document = \<lparr>du_id = ''d1'', du_status = ''active'', du_expiry_date = None,
                           du_manual_override = False\<rparr>\<rparr>"
  by (simp add: update_document_def verify_api_key_def sample_db_def sample_alice_def
      sample_bob_def sample_doc_def apply_expiry_def apply_status_def Let_def
      sample_fromisoformat_def)

section \<open>Login and the user's \<^verbatim>\<open>is_active\<close> flag\<close>



lemma with_is_active_tables [simp]:
  "organizations (with_is_active f t) = organizations t"
  "documents (with_is_active f t) = documents t"
  "api_keys (with_is_active f t) = api_keys t"
  "api_key_seq (with_is_active f t) = api_key_seq t"
  by (simp_all add: with_is_active_def)



lemma verify_api_key_with_is_active [simp]:
  "verify_api_key (with_is_active f t) k = verify_api_key t k"
  by (simp add: verify_api_key_def split: option.splits)














section \<open>Pagination of the document list\<close>






lemma mset_order_by_created_at_desc [simp]:
  "mset (order_by_created_at_desc tie docs) = mset docs"
  by (simp add: order_by_created_at_desc_def)








text \<open>The parameter \<open>tie\<close> leaves the engine every choice: each descending order of the
  rows (which differ from one another, by their primary key) is the result for some
  \<open>tie\<close>.\<close>

lemma filter_eq_distinct:
  "distinct zs \<Longrightarrow> k \<in> set zs \<Longrightarrow> filter (\<lambda>x. k = x) zs = [k]"
  by (induction zs) (auto simp: filter_empty_conv)

lemma order_by_created_at_desc_complete:
  assumes dist: "distinct ys"
    and perm: "mset ys = mset xs"
    and desc: "sorted_wrt (\<lambda>a b. d_created_at b \<le> d_created_at a) ys"
  shows "\<exists>tie. order_by_created_at_desc tie xs = ys"
proof -
  define tie where "tie d = length (takeWhile (\<lambda>x. x \<noteq> d) ys)" for d
  have index: "tie (ys ! i) = i" if "i < length ys" for i
  proof -
    have "takeWhile (\<lambda>x. x \<noteq> ys ! i) ys = take i ys"
    proof (rule takeWhile_eq_take_P_nth)
      fix j assume "j < i" "j < length ys"
      with that dist show "ys ! j \<noteq> ys ! i"
        by (simp add: nth_eq_iff_index_eq)
    next
      show "\<not> ys ! i \<noteq> ys ! i" by simp
    qed
    with that show ?thesis
      by (simp add: tie_def)
  qed
  have inj: "k = x" if "k \<in> set ys" "x \<in> set ys" "tie k = tie x" for k x
  proof -
    from that obtain i j where "i < length ys" "ys ! i = k" "j < length ys" "ys ! j = x"
      by (auto simp: in_set_conv_nth)
    with that(3) index show ?thesis
      by metis
  qed
  from perm have sets: "set xs = set ys"
    by (rule mset_eq_setD [symmetric])
  from perm dist have dist_xs: "distinct xs"
    by (metis mset_eq_imp_distinct_iff)
  have "sort_key (\<lambda>d. (- d_created_at d, tie d)) xs = ys"
  proof (rule properties_for_sort_key)
    show "mset ys = mset xs" by (rule perm)
  next
    fix k assume k: "k \<in> set ys"
    have same: "(- d_created_at k, tie k) = (- d_created_at x, tie x) \<longleftrightarrow> k = x"
      if "x \<in> set ys" for x
      using inj [OF k that] by auto
    have "filter (\<lambda>x. (- d_created_at k, tie k) = (- d_created_at x, tie x)) ys
            = filter (\<lambda>x. k = x) ys"
      by (rule filter_cong [OF refl]) (rule same)
    moreover have "filter (\<lambda>x. (- d_created_at k, tie k) = (- d_created_at x, tie x)) xs
            = filter (\<lambda>x. k = x) xs"
      by (rule filter_cong [OF refl]) (rule same, simp add: sets)
    ultimately show "filter (\<lambda>x. (- d_created_at k, tie k) = (- d_created_at x, tie x)) ys
            = filter (\<lambda>x. (- d_created_at k, tie k) = (- d_created_at x, tie x)) xs"
      using k by (simp add: filter_eq_distinct dist dist_xs sets)
  next
    show "sorted (map (\<lambda>d. (- d_created_at d, tie d)) ys)"
    proof (subst sorted_map, subst sorted_wrt_iff_nth_less, intro allI impI)
      fix i j assume "i < j" "j < length ys"
      then have i: "i < length ys" by simp
      from desc \<open>i < j\<close> \<open>j < length ys\<close>
      have "d_created_at (ys ! j) \<le> d_created_at (ys ! i)"
        by (simp add: sorted_wrt_iff_nth_less)
      moreover have "tie (ys ! i) \<le> tie (ys ! j)"
        using index [OF i] index [OF \<open>j < length ys\<close>] \<open>i < j\<close> by simp
      ultimately show "(- d_created_at (ys ! i), tie (ys ! i))
                        \<le> (- d_created_at (ys ! j), tie (ys ! j))"
        by (auto simp: less_eq_prod_def)
    qed
  qed
  then show ?thesis
    unfolding order_by_created_at_desc_def by blast
qed







end
